theory Spec2Isabelle
  imports Complex_Main
begin

section \<open>Sport tracker: workout statistics from sensor packages\<close>

text \<open>
  The module \<^verbatim>\<open>tracker.py\<close> holds a base class \<^verbatim>\<open>Training\<close>, four activities derived
  from it (\<^verbatim>\<open>Cycling\<close>, \<^verbatim>\<open>Running\<close>, \<^verbatim>\<open>SportsWalking\<close>, \<^verbatim>\<open>Swimming\<close>), the dataclass
  \<^verbatim>\<open>InfoMessage\<close>, the factory \<^verbatim>\<open>read_package\<close> and the reporter \<^verbatim>\<open>main\<close>.

  Modelling decisions.
  \<^item> Python is dynamically typed: a constructor stores whatever it is given. A raw value
    is a \<open>pyval\<close> (an int, a float or a str); arithmetic on a str raises \<^verbatim>\<open>TypeError\<close>.
  \<^item> A Python float is modelled by the real number it stands for. Rounding to binary64,
    overflow, infinities and NaN are outside the model; the arithmetic is exact.
  \<^item> Every raise is a value: a function that can raise returns \<open>error + 'a\<close>, the
    exception on the left.
  \<^item> A Python str is the list of the bytes of its UTF-8 encoding, so that the Cyrillic
    literals of the source can be written down.
\<close>

subsection \<open>Values and exceptions\<close>

datatype pyval = PInt int | PFloat real | PStr string

datatype error = ValueError string | TypeError | ZeroDivisionError

type_synonym 'a result = "error + 'a"

text \<open>Sequencing of two computations that may raise: the first exception wins.\<close>

fun bind_res :: "'a result \<Rightarrow> ('a \<Rightarrow> 'b result) \<Rightarrow> 'b result" where
  "bind_res (Inl e) f = Inl e"
| "bind_res (Inr v) f = f v"

text \<open>
  A field used as an operand of float arithmetic. Each arithmetic expression of the source
  has a float operand, or is divided by the number \<^verbatim>\<open>M_IN_KM\<close> right away, so an int is
  converted to the float of the same value and a str raises \<^verbatim>\<open>TypeError\<close> (in
  \<^verbatim>\<open>lenght_pool * count_pool\<close> a str times an int is a str, and the division that follows
  raises the \<^verbatim>\<open>TypeError\<close>).
\<close>

fun to_float :: "pyval \<Rightarrow> real result" where
  "to_float (PInt n) = Inr (of_int n)"
| "to_float (PFloat x) = Inr x"
| "to_float (PStr s) = Inl TypeError"

text \<open>Python's \<^verbatim>\<open>/\<close> and \<^verbatim>\<open>//\<close> on floats raise on a zero divisor.\<close>

definition py_truediv :: "real \<Rightarrow> real \<Rightarrow> real result" where
  "py_truediv a b = (if b = 0 then Inl ZeroDivisionError else Inr (a / b))"

definition py_floordiv :: "real \<Rightarrow> real \<Rightarrow> real result" where
  "py_floordiv a b = (if b = 0 then Inl ZeroDivisionError else Inr (of_int \<lfloor>a / b\<rfloor>))"

subsection \<open>The activities\<close>

text \<open>
  One constructor for each class that \<^verbatim>\<open>read_package\<close> can instantiate, with the
  arguments of its \<^verbatim>\<open>__init__\<close> in order: action, duration, weight, and then
  \<^verbatim>\<open>area_type\<close> (Cycling), \<^verbatim>\<open>height\<close> (SportsWalking), \<^verbatim>\<open>length_pool\<close> and
  \<^verbatim>\<open>count_pool\<close> (Swimming).
\<close>

datatype training =
    Cycling pyval pyval pyval pyval
  | Running pyval pyval pyval
  | SportsWalking pyval pyval pyval pyval
  | Swimming pyval pyval pyval pyval pyval

fun action :: "training \<Rightarrow> pyval" where
  "action (Cycling a d w ar) = a"
| "action (Running a d w) = a"
| "action (SportsWalking a d w h) = a"
| "action (Swimming a d w l c) = a"

fun duration :: "training \<Rightarrow> pyval" where
  "duration (Cycling a d w ar) = d"
| "duration (Running a d w) = d"
| "duration (SportsWalking a d w h) = d"
| "duration (Swimming a d w l c) = d"

fun weight :: "training \<Rightarrow> pyval" where
  "weight (Cycling a d w ar) = w"
| "weight (Running a d w) = w"
| "weight (SportsWalking a d w h) = w"
| "weight (Swimming a d w l c) = w"

text \<open>\<^verbatim>\<open>self.__class__.__name__\<close>\<close>

fun class_name :: "training \<Rightarrow> string" where
  "class_name (Cycling a d w ar) = ''Cycling''"
| "class_name (Running a d w) = ''Running''"
| "class_name (SportsWalking a d w h) = ''SportsWalking''"
| "class_name (Swimming a d w l c) = ''Swimming''"

text \<open>Class attributes. \<^verbatim>\<open>LEN_STEP\<close> is looked up through \<^verbatim>\<open>self\<close>, so a subclass overrides it.\<close>

definition M_IN_KM :: real where "M_IN_KM = 1000"

definition MINUTES_IN_HOUR :: real where "MINUTES_IN_HOUR = 60"

fun LEN_STEP :: "training \<Rightarrow> real" where
  "LEN_STEP (Cycling a d w ar) = 1.40"
| "LEN_STEP (Running a d w) = 0.65"
| "LEN_STEP (SportsWalking a d w h) = 0.65"
| "LEN_STEP (Swimming a d w l c) = 1.38"

definition COEFF_FOR_TRAIL :: real where "COEFF_FOR_TRAIL = 6"

definition COEFF_FOR_CLASSIC :: real where "COEFF_FOR_CLASSIC = 2.5"

definition COEFF3 :: real where "COEFF3 = 18"

definition COEFF4 :: real where "COEFF4 = 20"

definition COEFF_CALORIES_1 :: real where "COEFF_CALORIES_1 = 0.035"

definition COEFF_CALORIES_2 :: real where "COEFF_CALORIES_2 = 0.029"

definition COEFF1 :: real where "COEFF1 = 1.1"

definition COEFF2 :: real where "COEFF2 = 2"

text \<open>
  \<^verbatim>\<open>get_distance\<close>: \<^verbatim>\<open>(self.action * self.LEN_STEP) / self.M_IN_KM\<close> in \<^verbatim>\<open>Training\<close>, and
  the same expression again in \<^verbatim>\<open>Cycling\<close> and \<^verbatim>\<open>Swimming\<close>.
\<close>

definition get_distance :: "training \<Rightarrow> real result" where
  "get_distance t = bind_res (to_float (action t)) (\<lambda>a. Inr (a * LEN_STEP t / M_IN_KM))"

text \<open>
  \<^verbatim>\<open>get_mean_speed\<close>: \<^verbatim>\<open>self.get_distance() / self.duration\<close> in \<^verbatim>\<open>Training\<close>;
  \<^verbatim>\<open>Swimming\<close> overrides it with
  \<^verbatim>\<open>self.lenght_pool * self.count_pool / self.M_IN_KM / self.duration\<close>.
\<close>

fun get_mean_speed :: "training \<Rightarrow> real result" where
  "get_mean_speed (Swimming a d w l c) =
     bind_res (to_float l) (\<lambda>lv.
     bind_res (to_float c) (\<lambda>cv.
     bind_res (to_float d) (\<lambda>dv.
       py_truediv (lv * cv / M_IN_KM) dv)))"
| "get_mean_speed t =
     bind_res (get_distance t) (\<lambda>dist.
     bind_res (to_float (duration t)) (\<lambda>dv.
       py_truediv dist dv))"

text \<open>
  \<^verbatim>\<open>get_spent_calories\<close>, one body for each class. The operands are evaluated from left to
  right, as Python does, so that the exception raised first is the one returned.
\<close>

fun get_spent_calories :: "training \<Rightarrow> real result" where
  "get_spent_calories (Cycling a d w ar) =
     bind_res (get_mean_speed (Cycling a d w ar)) (\<lambda>v.
     bind_res (to_float w) (\<lambda>wv.
     bind_res (to_float d) (\<lambda>dv.
       let colories_per_minute =
             (if ar = PStr ''trail'' then COEFF_FOR_TRAIL * v * wv
              else COEFF_FOR_CLASSIC * v * wv);
           training_mins = dv * MINUTES_IN_HOUR
       in Inr ((colories_per_minute / M_IN_KM) * training_mins))))"
| "get_spent_calories (Running a d w) =
     bind_res (get_mean_speed (Running a d w)) (\<lambda>v.
     bind_res (to_float w) (\<lambda>wv.
     bind_res (to_float d) (\<lambda>dv.
       let colories_per_minute = (COEFF3 * v - COEFF4) * wv;
           training_mins = dv * MINUTES_IN_HOUR
       in Inr ((colories_per_minute / M_IN_KM) * training_mins))))"
| "get_spent_calories (SportsWalking a d w h) =
     bind_res (to_float w) (\<lambda>wv.
     bind_res (get_mean_speed (SportsWalking a d w h)) (\<lambda>v.
     bind_res (to_float h) (\<lambda>hv.
     bind_res (py_floordiv (v ^ 2) hv) (\<lambda>q.
     bind_res (to_float d) (\<lambda>dv.
       Inr ((COEFF_CALORIES_1 * wv + q * COEFF_CALORIES_2 * wv)
            * (dv * MINUTES_IN_HOUR)))))))"
| "get_spent_calories (Swimming a d w l c) =
     bind_res (get_mean_speed (Swimming a d w l c)) (\<lambda>v.
     bind_res (to_float w) (\<lambda>wv.
       Inr ((v + COEFF1) * COEFF2 * wv)))"

subsection \<open>The report\<close>

text \<open>
  The format specification \<^verbatim>\<open>.3f\<close>: the sign, the integer part of the absolute value in
  decimal, a point and three decimals. Python rounds the exact value of the float to the
  nearest multiple of \<open>1/1000\<close> and, when it lies halfway between two, to the even one.
\<close>

definition round_half_even :: "real \<Rightarrow> int" where
  "round_half_even x =
     (let f = \<lfloor>x\<rfloor>; r = x - of_int f
      in if r < 1 / 2 then f else if 1 / 2 < r then f + 1 else if even f then f else f + 1)"

definition digit_char :: "nat \<Rightarrow> char" where
  "digit_char d = ''0123456789'' ! d"

function show_nat :: "nat \<Rightarrow> string" where
  "show_nat n = (if n < 10 then [digit_char n] else show_nat (n div 10) @ [digit_char (n mod 10)])"
  by pat_completeness auto
termination
  by (relation "measure (\<lambda>n. n)") auto

declare show_nat.simps [simp del]

definition format_3f :: "real \<Rightarrow> string" where
  "format_3f x =
     (let q = nat (round_half_even (\<bar>x\<bar> * 1000))
      in (if x < 0 then ''-'' else [])
         @ show_nat (q div 1000) @ ''.''
         @ [digit_char (q div 100 mod 10), digit_char (q div 10 mod 10), digit_char (q mod 10)])"

text \<open>
  \<^verbatim>\<open>format(v, '.3f')\<close> on a stored value: an int is formatted as the float of the same
  value, a str raises \<^verbatim>\<open>ValueError\<close>.
\<close>

fun format_3f_val :: "pyval \<Rightarrow> string result" where
  "format_3f_val (PInt n) = Inr (format_3f (of_int n))"
| "format_3f_val (PFloat x) = Inr (format_3f x)"
| "format_3f_val (PStr s) =
     Inl (ValueError (''Unknown format code '' @ [CHR 0x27] @ ''f'' @ [CHR 0x27]
                      @ '' for object of type '' @ [CHR 0x27] @ ''str'' @ [CHR 0x27]))"

text \<open>
  The dataclass \<^verbatim>\<open>InfoMessage\<close>, with its fields \<^verbatim>\<open>training_type\<close>, \<^verbatim>\<open>duration\<close>,
  \<^verbatim>\<open>distance\<close>, \<^verbatim>\<open>speed\<close> and \<^verbatim>\<open>calories\<close> in order. The duration is the stored field of
  the training, the other three numbers are results of the formulas and so floats.
\<close>

datatype info_message = InfoMessage string pyval real real real

text \<open>
  The pieces of the class attribute \<^verbatim>\<open>message\<close> between its replacement fields, in UTF-8.
  Transliterated, the template reads
  \<^verbatim>\<open>Tip trenirovki: {training_type}; Dlitel'nost': {duration:.3f} ch.; \<close>
  \<^verbatim>\<open>Distantsiya: {distance:.3f} km; Sr. skorost': {speed:.3f} km/ch; \<close>
  \<^verbatim>\<open>Potracheno kkal: {calories:.3f}.\<close>
\<close>

definition message_training_type :: string where
  "message_training_type =
     [CHR 0xD0, CHR 0xA2, CHR 0xD0, CHR 0xB8, CHR 0xD0, CHR 0xBF, CHR 0x20, CHR 0xD1,
      CHR 0x82, CHR 0xD1, CHR 0x80, CHR 0xD0, CHR 0xB5, CHR 0xD0, CHR 0xBD, CHR 0xD0,
      CHR 0xB8, CHR 0xD1, CHR 0x80, CHR 0xD0, CHR 0xBE, CHR 0xD0, CHR 0xB2, CHR 0xD0,
      CHR 0xBA, CHR 0xD0, CHR 0xB8, CHR 0x3A, CHR 0x20]"

definition message_duration :: string where
  "message_duration =
     [CHR 0x3B, CHR 0x20, CHR 0xD0, CHR 0x94, CHR 0xD0, CHR 0xBB, CHR 0xD0, CHR 0xB8,
      CHR 0xD1, CHR 0x82, CHR 0xD0, CHR 0xB5, CHR 0xD0, CHR 0xBB, CHR 0xD1, CHR 0x8C,
      CHR 0xD0, CHR 0xBD, CHR 0xD0, CHR 0xBE, CHR 0xD1, CHR 0x81, CHR 0xD1, CHR 0x82,
      CHR 0xD1, CHR 0x8C, CHR 0x3A, CHR 0x20]"

definition message_distance :: string where
  "message_distance =
     [CHR 0x20, CHR 0xD1, CHR 0x87, CHR 0x2E, CHR 0x3B, CHR 0x20, CHR 0xD0, CHR 0x94,
      CHR 0xD0, CHR 0xB8, CHR 0xD1, CHR 0x81, CHR 0xD1, CHR 0x82, CHR 0xD0, CHR 0xB0,
      CHR 0xD0, CHR 0xBD, CHR 0xD1, CHR 0x86, CHR 0xD0, CHR 0xB8, CHR 0xD1, CHR 0x8F,
      CHR 0x3A, CHR 0x20]"

definition message_speed :: string where
  "message_speed =
     [CHR 0x20, CHR 0xD0, CHR 0xBA, CHR 0xD0, CHR 0xBC, CHR 0x3B, CHR 0x20, CHR 0xD0,
      CHR 0xA1, CHR 0xD1, CHR 0x80, CHR 0x2E, CHR 0x20, CHR 0xD1, CHR 0x81, CHR 0xD0,
      CHR 0xBA, CHR 0xD0, CHR 0xBE, CHR 0xD1, CHR 0x80, CHR 0xD0, CHR 0xBE, CHR 0xD1,
      CHR 0x81, CHR 0xD1, CHR 0x82, CHR 0xD1, CHR 0x8C, CHR 0x3A, CHR 0x20]"

definition message_calories :: string where
  "message_calories =
     [CHR 0x20, CHR 0xD0, CHR 0xBA, CHR 0xD0, CHR 0xBC, CHR 0x2F, CHR 0xD1, CHR 0x87,
      CHR 0x3B, CHR 0x20, CHR 0xD0, CHR 0x9F, CHR 0xD0, CHR 0xBE, CHR 0xD1, CHR 0x82,
      CHR 0xD1, CHR 0x80, CHR 0xD0, CHR 0xB0, CHR 0xD1, CHR 0x87, CHR 0xD0, CHR 0xB5,
      CHR 0xD0, CHR 0xBD, CHR 0xD0, CHR 0xBE, CHR 0x20, CHR 0xD0, CHR 0xBA, CHR 0xD0,
      CHR 0xBA, CHR 0xD0, CHR 0xB0, CHR 0xD0, CHR 0xBB, CHR 0x3A, CHR 0x20]"

text \<open>\<^verbatim>\<open>get_message\<close>: \<^verbatim>\<open>self.message.format(**asdict(self))\<close>.\<close>

fun get_message :: "info_message \<Rightarrow> string result" where
  "get_message (InfoMessage ttype dur dst spd cal) =
     bind_res (format_3f_val dur) (\<lambda>dur_text.
       Inr (message_training_type @ ttype
            @ message_duration @ dur_text
            @ message_distance @ format_3f dst
            @ message_speed @ format_3f spd
            @ message_calories @ format_3f cal @ ''.''))"

text \<open>
  \<^verbatim>\<open>show_training_info\<close>: the arguments of \<^verbatim>\<open>InfoMessage(...)\<close> are evaluated in order, and
  an exception raised by one of the formulas leaves the method.
\<close>

definition show_training_info :: "training \<Rightarrow> info_message result" where
  "show_training_info t =
     bind_res (get_distance t) (\<lambda>dist.
     bind_res (get_mean_speed t) (\<lambda>sp.
     bind_res (get_spent_calories t) (\<lambda>cal.
       Inr (InfoMessage (class_name t) (duration t) dist sp cal))))"

text \<open>
  \<^verbatim>\<open>main\<close> prints the message; the model returns the line it prints. Nothing in the
  module catches an exception, so the caller of \<^verbatim>\<open>main\<close> receives it.
\<close>

definition main :: "training \<Rightarrow> string result" where
  "main t = bind_res (show_training_info t) get_message"

subsection \<open>The factory\<close>

text \<open>
  Calling a class with \<^verbatim>\<open>*data\<close> binds the elements of the list to the parameters of
  \<^verbatim>\<open>__init__\<close>; a list of any other length raises \<^verbatim>\<open>TypeError\<close>. No \<^verbatim>\<open>__init__\<close> looks at
  the values it stores.
\<close>

fun new_Swimming :: "pyval list \<Rightarrow> training result" where
  "new_Swimming [a, d, w, l, c] = Inr (Swimming a d w l c)"
| "new_Swimming data = Inl TypeError"

fun new_Running :: "pyval list \<Rightarrow> training result" where
  "new_Running [a, d, w] = Inr (Running a d w)"
| "new_Running data = Inl TypeError"

fun new_SportsWalking :: "pyval list \<Rightarrow> training result" where
  "new_SportsWalking [a, d, w, h] = Inr (SportsWalking a d w h)"
| "new_SportsWalking data = Inl TypeError"

fun new_Cycling :: "pyval list \<Rightarrow> training result" where
  "new_Cycling [a, d, w, ar] = Inr (Cycling a d w ar)"
| "new_Cycling data = Inl TypeError"

text \<open>The dictionary \<^verbatim>\<open>training_type\<close> of \<^verbatim>\<open>read_package\<close>, from code to class.\<close>

definition training_type :: "string \<rightharpoonup> (pyval list \<Rightarrow> training result)" where
  "training_type =
     map_of [(''SWM'', new_Swimming), (''RUN'', new_Running),
             (''WLK'', new_SportsWalking), (''CYC'', new_Cycling)]"

text \<open>
  The text of the \<^verbatim>\<open>ValueError\<close> before the code, in UTF-8; transliterated,
  \<^verbatim>\<open>Nekorrektnyi tip trenirovki \<close>.
\<close>

definition incorrect_type_text :: string where
  "incorrect_type_text =
     [CHR 0xD0, CHR 0x9D, CHR 0xD0, CHR 0xB5, CHR 0xD0, CHR 0xBA, CHR 0xD0, CHR 0xBE,
      CHR 0xD1, CHR 0x80, CHR 0xD1, CHR 0x80, CHR 0xD0, CHR 0xB5, CHR 0xD0, CHR 0xBA,
      CHR 0xD1, CHR 0x82, CHR 0xD0, CHR 0xBD, CHR 0xD1, CHR 0x8B, CHR 0xD0, CHR 0xB9,
      CHR 0x20, CHR 0xD1, CHR 0x82, CHR 0xD0, CHR 0xB8, CHR 0xD0, CHR 0xBF, CHR 0x20,
      CHR 0xD1, CHR 0x82, CHR 0xD1, CHR 0x80, CHR 0xD0, CHR 0xB5, CHR 0xD0, CHR 0xBD,
      CHR 0xD0, CHR 0xB8, CHR 0xD1, CHR 0x80, CHR 0xD0, CHR 0xBE, CHR 0xD0, CHR 0xB2,
      CHR 0xD0, CHR 0xBA, CHR 0xD0, CHR 0xB8, CHR 0x20]"

definition read_package :: "string \<Rightarrow> pyval list \<Rightarrow> training result" where
  "read_package workout_type data =
     (case training_type workout_type of
        None \<Rightarrow> Inl (ValueError (incorrect_type_text @ workout_type))
      | Some cls \<Rightarrow> cls data)"

subsection \<open>Notions of the specification\<close>

text \<open>
  A result is approximately \<open>x\<close>, to the three decimals the specification writes, when it is
  a value and lies within half a thousandth of \<open>x\<close>.
\<close>

definition approx_3dp :: "real result \<Rightarrow> real \<Rightarrow> bool" where
  "approx_3dp r x = (case r of Inl e \<Rightarrow> False | Inr v \<Rightarrow> \<bar>v - x\<bar> \<le> 5 / 10000)"

text \<open>A field that holds a number, and a field that holds a positive number.\<close>

definition is_number :: "pyval \<Rightarrow> bool" where
  "is_number v = (case to_float v of Inl e \<Rightarrow> False | Inr x \<Rightarrow> True)"

definition is_positive :: "pyval \<Rightarrow> bool" where
  "is_positive v = (case to_float v of Inl e \<Rightarrow> False | Inr x \<Rightarrow> 0 < x)"

definition is_zero :: "pyval \<Rightarrow> bool" where
  "is_zero v = (case to_float v of Inl e \<Rightarrow> False | Inr x \<Rightarrow> x = 0)"

text \<open>The number a string of decimal digits denotes.\<close>

definition digit_val :: "char \<Rightarrow> nat" where
  "digit_val c = of_char c - 48"

definition decimal_val :: "string \<Rightarrow> nat" where
  "decimal_val ds = foldl (\<lambda>acc c. 10 * acc + digit_val c) 0 ds"

definition is_digit :: "char \<Rightarrow> bool" where
  "is_digit c = (c \<in> set ''0123456789'')"

text \<open>A reading whose fields that stand for numbers hold numbers, and one where they are positive.\<close>

fun numeric_reading :: "training \<Rightarrow> bool" where
  "numeric_reading (Cycling a d w ar) = (is_number a \<and> is_number d \<and> is_number w)"
| "numeric_reading (Running a d w) = (is_number a \<and> is_number d \<and> is_number w)"
| "numeric_reading (SportsWalking a d w h) =
     (is_number a \<and> is_number d \<and> is_number w \<and> is_number h)"
| "numeric_reading (Swimming a d w l c) =
     (is_number a \<and> is_number d \<and> is_number w \<and> is_number l \<and> is_number c)"

fun positive_reading :: "training \<Rightarrow> bool" where
  "positive_reading (Cycling a d w ar) = (is_positive a \<and> is_positive d \<and> is_positive w)"
| "positive_reading (Running a d w) = (is_positive a \<and> is_positive d \<and> is_positive w)"
| "positive_reading (SportsWalking a d w h) =
     (is_positive a \<and> is_positive d \<and> is_positive w \<and> is_positive h)"
| "positive_reading (Swimming a d w l c) =
     (is_positive a \<and> is_positive d \<and> is_positive w \<and> is_positive l \<and> is_positive c)"

text \<open>
  The walking formula read with true division in place of the floor division, to compare
  with the one the code computes.
\<close>

definition walking_calories_true_division :: "real \<Rightarrow> real \<Rightarrow> real \<Rightarrow> real \<Rightarrow> real" where
  "walking_calories_true_division wv v hv dv =
     (0.035 * wv + (v ^ 2 / hv) * 0.029 * wv) * (dv * 60)"


section \<open>Basic facts\<close>

lemmas consts_defs =
  M_IN_KM_def MINUTES_IN_HOUR_def COEFF_FOR_TRAIL_def COEFF_FOR_CLASSIC_def COEFF3_def
  COEFF4_def COEFF_CALORIES_1_def COEFF_CALORIES_2_def COEFF1_def COEFF2_def

lemma is_number_cases: "is_number v \<Longrightarrow> \<exists>x. to_float v = Inr x"
  by (cases v) (simp_all add: is_number_def)

lemma is_positive_cases: "is_positive v \<Longrightarrow> \<exists>x. to_float v = Inr x \<and> 0 < x"
  by (cases v) (simp_all add: is_positive_def)

lemma is_zero_cases: "is_zero v \<Longrightarrow> to_float v = Inr 0"
  by (cases v) (simp_all add: is_zero_def)

subsection \<open>Formatting with three decimals\<close>

lemma round_half_even_bound: "\<bar>of_int (round_half_even y) - y\<bar> \<le> 1 / 2"
  unfolding round_half_even_def Let_def by (simp; linarith)

lemma round_half_even_nonneg: "0 \<le> y \<Longrightarrow> 0 \<le> round_half_even y"
  unfolding round_half_even_def Let_def by (simp; linarith)

lemma below_ten: "d < 10 \<Longrightarrow> d \<in> {0, 1, 2, 3, 4, 5, 6, 7, 8, 9::nat}"
  by auto

lemma digit_char_digit: "d < 10 \<Longrightarrow> is_digit (digit_char d)"
  by (drule below_ten) (auto simp: is_digit_def digit_char_def)

lemma digit_val_digit_char: "d < 10 \<Longrightarrow> digit_val (digit_char d) = d"
  by (drule below_ten) (auto simp: digit_val_def digit_char_def)

lemma decimal_val_snoc: "decimal_val (ds @ [c]) = 10 * decimal_val ds + digit_val c"
  by (simp add: decimal_val_def)

lemma decimal_val_single: "decimal_val [c] = digit_val c"
  by (simp add: decimal_val_def)

lemma show_nat_digits: "list_all is_digit (show_nat n)"
proof (induction n rule: show_nat.induct)
  case (1 n)
  show ?case
  proof (cases "n < 10")
    case True
    then show ?thesis by (simp add: show_nat.simps [of n] digit_char_digit)
  next
    case False
    with "1" show ?thesis by (simp add: show_nat.simps [of n] digit_char_digit)
  qed
qed

lemma show_nat_nonempty: "show_nat n \<noteq> []"
  by (simp add: show_nat.simps [of n])

lemma decimal_val_show_nat: "decimal_val (show_nat n) = n"
proof (induction n rule: show_nat.induct)
  case (1 n)
  show ?case
  proof (cases "n < 10")
    case True
    then show ?thesis by (simp add: show_nat.simps [of n] decimal_val_single digit_val_digit_char)
  next
    case False
    with "1" show ?thesis
      by (simp add: show_nat.simps [of n] decimal_val_snoc digit_val_digit_char)
  qed
qed

lemma split_thousands:
  "10 * (10 * (10 * (q div 1000) + q div 100 mod 10) + q div 10 mod 10) + q mod 10 = (q::nat)"
proof -
  define a where "a = q div 10"
  define b where "b = a div 10"
  have h: "q div 100 = b"
    unfolding a_def b_def by (simp add: div_mult2_eq)
  have t: "q div 1000 = b div 10"
    unfolding a_def b_def by (simp add: div_mult2_eq)
  have "10 * (b div 10) + b mod 10 = b"
    by simp
  moreover have "10 * b + a mod 10 = a"
    unfolding b_def by simp
  moreover have "10 * a + q mod 10 = q"
    unfolding a_def by simp
  ultimately show ?thesis
    unfolding h t a_def [symmetric] by simp
qed

lemma three_decimals_val:
  "decimal_val (show_nat (q div 1000)
     @ [digit_char (q div 100 mod 10), digit_char (q div 10 mod 10), digit_char (q mod 10)]) = q"
proof -
  have "decimal_val (show_nat (q div 1000)
     @ [digit_char (q div 100 mod 10), digit_char (q div 10 mod 10), digit_char (q mod 10)])
     = decimal_val (((show_nat (q div 1000) @ [digit_char (q div 100 mod 10)])
         @ [digit_char (q div 10 mod 10)]) @ [digit_char (q mod 10)])"
    by simp
  also have "\<dots> = 10 * (10 * (10 * (q div 1000) + q div 100 mod 10) + q div 10 mod 10) + q mod 10"
    by (simp only: decimal_val_snoc decimal_val_show_nat) (simp add: digit_val_digit_char)
  also have "\<dots> = q"
    by (rule split_thousands)
  finally show ?thesis .
qed

lemma format_3f_shape:
  "\<exists>ip fp. format_3f x = (if x < 0 then ''-'' else []) @ ip @ ''.'' @ fp
     \<and> ip \<noteq> [] \<and> length fp = 3 \<and> list_all is_digit (ip @ fp)
     \<and> \<bar>real (decimal_val (ip @ fp)) / 1000 - \<bar>x\<bar>\<bar> \<le> 1 / 2000"
proof -
  define q where "q = nat (round_half_even (\<bar>x\<bar> * 1000))"
  define ip where "ip = show_nat (q div 1000)"
  define fp where "fp = [digit_char (q div 100 mod 10), digit_char (q div 10 mod 10), digit_char (q mod 10)]"
  have f: "format_3f x = (if x < 0 then ''-'' else []) @ ip @ ''.'' @ fp"
    by (simp add: format_3f_def Let_def q_def ip_def fp_def)
  have d: "list_all is_digit (ip @ fp)"
    by (simp add: ip_def fp_def show_nat_digits digit_char_digit)
  have v: "decimal_val (ip @ fp) = q"
    unfolding ip_def fp_def by (rule three_decimals_val)
  have nn: "0 \<le> round_half_even (\<bar>x\<bar> * 1000)"
    by (rule round_half_even_nonneg) simp
  have "real q = of_int (round_half_even (\<bar>x\<bar> * 1000))"
    using nn by (simp add: q_def)
  moreover have "\<bar>of_int (round_half_even (\<bar>x\<bar> * 1000)) - \<bar>x\<bar> * 1000\<bar> \<le> 1 / 2"
    by (rule round_half_even_bound)
  ultimately have b: "\<bar>real q / 1000 - \<bar>x\<bar>\<bar> \<le> 1 / 2000"
    by (simp add: abs_le_iff field_simps)
  have n: "ip \<noteq> []" "length fp = 3"
    by (simp_all add: ip_def fp_def show_nat_nonempty)
  show ?thesis
    using f d b n unfolding v [symmetric] by blast
qed

subsection \<open>The factory\<close>

lemma training_type_known:
  "training_type ''SWM'' = Some new_Swimming" "training_type ''RUN'' = Some new_Running"
  "training_type ''WLK'' = Some new_SportsWalking" "training_type ''CYC'' = Some new_Cycling"
  by (simp_all add: training_type_def)

lemma training_type_unknown:
  "workout_type \<notin> {''SWM'', ''RUN'', ''WLK'', ''CYC''} \<Longrightarrow> training_type workout_type = None"
  by (simp add: training_type_def)

lemma training_type_some:
  "training_type workout_type = Some cls \<Longrightarrow>
     (workout_type = ''SWM'' \<and> cls = new_Swimming) \<or> (workout_type = ''RUN'' \<and> cls = new_Running)
     \<or> (workout_type = ''WLK'' \<and> cls = new_SportsWalking)
     \<or> (workout_type = ''CYC'' \<and> cls = new_Cycling)"
  by (simp add: training_type_def split: if_splits)

lemma new_Swimming_arity: "length data \<noteq> 5 \<Longrightarrow> new_Swimming data = Inl TypeError"
  by (cases data rule: new_Swimming.cases) simp_all

lemma new_Running_arity: "length data \<noteq> 3 \<Longrightarrow> new_Running data = Inl TypeError"
  by (cases data rule: new_Running.cases) simp_all

lemma new_SportsWalking_arity: "length data \<noteq> 4 \<Longrightarrow> new_SportsWalking data = Inl TypeError"
  by (cases data rule: new_SportsWalking.cases) simp_all

lemma new_Cycling_arity: "length data \<noteq> 4 \<Longrightarrow> new_Cycling data = Inl TypeError"
  by (cases data rule: new_Cycling.cases) simp_all

lemma new_Swimming_class: "new_Swimming data = Inr t \<Longrightarrow> class_name t = ''Swimming''"
  by (cases data rule: new_Swimming.cases) auto

lemma new_Running_class: "new_Running data = Inr t \<Longrightarrow> class_name t = ''Running''"
  by (cases data rule: new_Running.cases) auto

lemma new_SportsWalking_class:
  "new_SportsWalking data = Inr t \<Longrightarrow> class_name t = ''SportsWalking''"
  by (cases data rule: new_SportsWalking.cases) auto

lemma new_Cycling_class: "new_Cycling data = Inr t \<Longrightarrow> class_name t = ''Cycling''"
  by (cases data rule: new_Cycling.cases) auto

lemma read_package_unknown:
  "workout_type \<notin> {''SWM'', ''RUN'', ''WLK'', ''CYC''}
     \<Longrightarrow> read_package workout_type data = Inl (ValueError (incorrect_type_text @ workout_type))"
  by (simp add: read_package_def training_type_unknown)

lemma read_package_known:
  "read_package ''SWM'' data = new_Swimming data"
  "read_package ''RUN'' data = new_Running data"
  "read_package ''WLK'' data = new_SportsWalking data"
  "read_package ''CYC'' data = new_Cycling data"
  by (simp_all add: read_package_def training_type_known)

lemma read_package_class:
  assumes "read_package workout_type data = Inr t"
  shows "(workout_type, class_name t) \<in> {(''SWM'', ''Swimming''), (''RUN'', ''Running''),
             (''WLK'', ''SportsWalking''), (''CYC'', ''Cycling'')}"
proof -
  from assms obtain cls where c: "training_type workout_type = Some cls" and t: "cls data = Inr t"
    by (cases "training_type workout_type") (simp_all add: read_package_def)
  from training_type_some [OF c] consider
      "workout_type = ''SWM''" "cls = new_Swimming"
    | "workout_type = ''RUN''" "cls = new_Running"
    | "workout_type = ''WLK''" "cls = new_SportsWalking"
    | "workout_type = ''CYC''" "cls = new_Cycling"
    by blast
  then show ?thesis
  proof cases
    case 1
    with t have "class_name t = ''Swimming''" by (simp add: new_Swimming_class)
    with 1 show ?thesis by simp
  next
    case 2
    with t have "class_name t = ''Running''" by (simp add: new_Running_class)
    with 2 show ?thesis by simp
  next
    case 3
    with t have "class_name t = ''SportsWalking''" by (simp add: new_SportsWalking_class)
    with 3 show ?thesis by simp
  next
    case 4
    with t have "class_name t = ''Cycling''" by (simp add: new_Cycling_class)
    with 4 show ?thesis by simp
  qed
qed

lemma cycling_speed_any_area:
  "get_mean_speed (Cycling a d w ar) = get_mean_speed (Cycling a d w ar')"
  by (simp add: get_distance_def)

subsection \<open>Readings with numbers in their fields\<close>

lemma get_distance_numeric:
  "to_float (action t) = Inr av \<Longrightarrow> get_distance t = Inr (av * LEN_STEP t / M_IN_KM)"
  by (simp add: get_distance_def)

lemma positive_speed:
  assumes "positive_reading t"
  shows "\<exists>v. get_mean_speed t = Inr v \<and> 0 < v"
proof (cases t)
  case (Cycling a d w ar)
  with assms obtain av dv where "to_float a = Inr av" "0 < av" "to_float d = Inr dv" "0 < dv"
    by (auto dest!: is_positive_cases)
  with Cycling show ?thesis
    by (simp add: get_distance_def py_truediv_def consts_defs)
next
  case (Running a d w)
  with assms obtain av dv where "to_float a = Inr av" "0 < av" "to_float d = Inr dv" "0 < dv"
    by (auto dest!: is_positive_cases)
  with Running show ?thesis
    by (simp add: get_distance_def py_truediv_def consts_defs)
next
  case (SportsWalking a d w h)
  with assms obtain av dv where "to_float a = Inr av" "0 < av" "to_float d = Inr dv" "0 < dv"
    by (auto dest!: is_positive_cases)
  with SportsWalking show ?thesis
    by (simp add: get_distance_def py_truediv_def consts_defs)
next
  case (Swimming a d w l c)
  with assms obtain lv cv dv where "to_float l = Inr lv" "0 < lv" "to_float c = Inr cv" "0 < cv"
      "to_float d = Inr dv" "0 < dv"
    by (auto dest!: is_positive_cases)
  with Swimming show ?thesis
    by (simp add: py_truediv_def consts_defs)
qed

lemma positive_distance:
  assumes "positive_reading t"
  shows "\<exists>v. get_distance t = Inr v \<and> 0 < v"
proof -
  from assms have "is_positive (action t)"
    by (cases t) simp_all
  then obtain av where "to_float (action t) = Inr av" "0 < av"
    by (auto dest!: is_positive_cases)
  moreover have "0 < LEN_STEP t"
    by (cases t) simp_all
  ultimately have "get_distance t = Inr (av * LEN_STEP t / M_IN_KM)"
      and "0 < av * LEN_STEP t / M_IN_KM"
    by (simp_all add: get_distance_def consts_defs)
  then show ?thesis
    by blast
qed

lemma positive_calories:
  assumes "positive_reading t"
  shows "\<exists>v. get_spent_calories t = Inr v"
proof -
  from positive_speed [OF assms] obtain v where v: "get_mean_speed t = Inr v" "0 < v"
    by blast
  show ?thesis
  proof (cases t)
    case (Cycling a d w ar)
    with assms obtain wv dv where "to_float w = Inr wv" "to_float d = Inr dv"
      by (auto dest!: is_positive_cases)
    with Cycling v show ?thesis
      by (simp add: Let_def del: get_mean_speed.simps)
  next
    case (Running a d w)
    with assms obtain wv dv where "to_float w = Inr wv" "to_float d = Inr dv"
      by (auto dest!: is_positive_cases)
    with Running v show ?thesis
      by (simp add: Let_def del: get_mean_speed.simps)
  next
    case (SportsWalking a d w h)
    with assms obtain wv dv hv where "to_float w = Inr wv" "to_float d = Inr dv"
        "to_float h = Inr hv" "0 < hv"
      by (auto dest!: is_positive_cases)
    with SportsWalking v show ?thesis
      by (simp add: py_floordiv_def del: get_mean_speed.simps)
  next
    case (Swimming a d w l c)
    with assms obtain wv where "to_float w = Inr wv"
      by (auto dest!: is_positive_cases)
    with Swimming v show ?thesis
      by (simp del: get_mean_speed.simps)
  qed
qed

lemma positive_duration_number:
  assumes "positive_reading t"
  shows "\<exists>dv. to_float (duration t) = Inr dv"
proof -
  from assms have "is_positive (duration t)"
    by (cases t) simp_all
  then show ?thesis
    by (auto dest!: is_positive_cases)
qed

lemma format_3f_val_number:
  "to_float v = Inr x \<Longrightarrow> format_3f_val v = Inr (format_3f x)"
  by (cases v) simp_all

lemma main_numeric:
  assumes "get_distance t = Inr dst" "get_mean_speed t = Inr spd" "get_spent_calories t = Inr cal"
    "to_float (duration t) = Inr dv"
  shows "main t = Inr (message_training_type @ class_name t
            @ message_duration @ format_3f dv
            @ message_distance @ format_3f dst
            @ message_speed @ format_3f spd
            @ message_calories @ format_3f cal @ ''.'')"
  using assms by (simp add: main_def show_training_info_def format_3f_val_number)

lemma positive_main:
  assumes "positive_reading t"
  shows "\<exists>s. main t = Inr s"
proof -
  from positive_distance [OF assms] obtain dst where 1: "get_distance t = Inr dst" by blast
  from positive_speed [OF assms] obtain spd where 2: "get_mean_speed t = Inr spd" by blast
  from positive_calories [OF assms] obtain cal where 3: "get_spent_calories t = Inr cal" by blast
  from positive_duration_number [OF assms] obtain dv where 4: "to_float (duration t) = Inr dv"
    by blast
  from main_numeric [OF 1 2 3 4] show ?thesis by blast
qed

lemma zero_duration_speed:
  assumes "numeric_reading t" "is_zero (duration t)"
  shows "get_mean_speed t = Inl ZeroDivisionError"
proof (cases t)
  case (Cycling a d w ar)
  with assms obtain av where "to_float a = Inr av" "to_float d = Inr 0"
    by (auto dest!: is_number_cases is_zero_cases)
  with Cycling show ?thesis
    by (simp add: get_distance_def py_truediv_def)
next
  case (Running a d w)
  with assms obtain av where "to_float a = Inr av" "to_float d = Inr 0"
    by (auto dest!: is_number_cases is_zero_cases)
  with Running show ?thesis
    by (simp add: get_distance_def py_truediv_def)
next
  case (SportsWalking a d w h)
  with assms obtain av where "to_float a = Inr av" "to_float d = Inr 0"
    by (auto dest!: is_number_cases is_zero_cases)
  with SportsWalking show ?thesis
    by (simp add: get_distance_def py_truediv_def)
next
  case (Swimming a d w l c)
  with assms obtain lv cv where "to_float l = Inr lv" "to_float c = Inr cv" "to_float d = Inr 0"
    by (auto dest!: is_number_cases is_zero_cases)
  with Swimming show ?thesis
    by (simp add: py_truediv_def)
qed

lemma numeric_distance:
  assumes "numeric_reading t"
  shows "\<exists>v. get_distance t = Inr v"
proof -
  from assms have "is_number (action t)"
    by (cases t) simp_all
  then show ?thesis
    by (auto simp: get_distance_def dest!: is_number_cases)
qed

lemma numeric_weight:
  assumes "numeric_reading t"
  shows "\<exists>v. to_float (weight t) = Inr v"
proof -
  from assms have "is_number (weight t)"
    by (cases t) simp_all
  then show ?thesis
    by (auto dest!: is_number_cases)
qed

lemma speed_error_calories:
  assumes "numeric_reading t" "get_mean_speed t = Inl e"
  shows "get_spent_calories t = Inl e"
proof -
  from numeric_weight [OF assms(1)] obtain wv where w: "to_float (weight t) = Inr wv"
    by blast
  from assms(2) w show ?thesis
    by (cases t) (simp_all del: get_mean_speed.simps)
qed

lemma speed_error_main:
  assumes "numeric_reading t" "get_mean_speed t = Inl e"
  shows "main t = Inl e"
proof -
  from numeric_distance [OF assms(1)] obtain v where "get_distance t = Inr v"
    by blast
  with assms(2) show ?thesis
    by (simp add: main_def show_training_info_def)
qed

lemma zero_height_calories:
  assumes "is_number a" "is_number d" "\<not> is_zero d" "is_number w" "is_zero h"
  shows "get_spent_calories (SportsWalking a d w h) = Inl ZeroDivisionError"
proof -
  from assms obtain av dv wv where n: "to_float a = Inr av" "to_float d = Inr dv"
      "to_float w = Inr wv" "to_float h = Inr 0"
    by (auto dest!: is_number_cases is_zero_cases)
  with assms(3) have "dv \<noteq> 0"
    by (simp add: is_zero_def)
  with n show ?thesis
    by (simp add: get_distance_def py_truediv_def py_floordiv_def)
qed

lemma zero_height_main:
  assumes "is_number a" "is_number d" "\<not> is_zero d" "is_number w" "is_zero h"
  shows "main (SportsWalking a d w h) = Inl ZeroDivisionError"
proof -
  from assms obtain av dv where n: "to_float a = Inr av" "to_float d = Inr dv"
    by (auto dest!: is_number_cases)
  with assms(3) have "dv \<noteq> 0"
    by (simp add: is_zero_def)
  with n have "\<exists>x. get_distance (SportsWalking a d w h) = Inr x"
      and "\<exists>x. get_mean_speed (SportsWalking a d w h) = Inr x"
    by (simp_all add: get_distance_def py_truediv_def)
  with zero_height_calories [OF assms] show ?thesis
    by (auto simp: main_def show_training_info_def simp del: get_mean_speed.simps
        get_spent_calories.simps)
qed

lemma format_3f_examples:
  "format_3f 1 = ''1.000''" "format_3f 9.75 = ''9.750''" "format_3f 699.75 = ''699.750''"
  by (simp_all add: format_3f_def round_half_even_def show_nat.simps digit_char_def)

lemma running_package_values:
  "get_distance (Running (PInt 15000) (PInt 1) (PInt 75)) = Inr 9.75"
  "get_mean_speed (Running (PInt 15000) (PInt 1) (PInt 75)) = Inr 9.75"
  "get_spent_calories (Running (PInt 15000) (PInt 1) (PInt 75)) = Inr 699.75"
  "to_float (duration (Running (PInt 15000) (PInt 1) (PInt 75))) = Inr 1"
  by (simp_all add: get_distance_def py_truediv_def consts_defs)

section \<open>The formulas on the packages of the driver\<close>

text \<open>
  C5. The swimming package of the driver, \<^verbatim>\<open>('SWM', [720, 1, 80, 25, 40])\<close>: the distance is
  0.9936 km, which is 0.994 to three decimals, the mean speed is 1 km/h and the calories
  are 336, the value of \<^verbatim>\<open>(mean_speed + 1.1) * 2 * weight\<close>.
\<close>

theorem swimming_scenario:
  "get_distance (Swimming (PInt 720) (PInt 1) (PInt 80) (PInt 25) (PInt 40)) = Inr 0.9936
   \<and> approx_3dp (get_distance (Swimming (PInt 720) (PInt 1) (PInt 80) (PInt 25) (PInt 40))) 0.994
   \<and> approx_3dp (get_mean_speed (Swimming (PInt 720) (PInt 1) (PInt 80) (PInt 25) (PInt 40))) 1.000
   \<and> approx_3dp (get_spent_calories (Swimming (PInt 720) (PInt 1) (PInt 80) (PInt 25) (PInt 40)))
        336.000
   \<and> get_spent_calories (Swimming (PInt 720) (PInt 1) (PInt 80) (PInt 25) (PInt 40))
       = Inr ((1 + 1.1) * 2 * 80)"
  by (simp add: approx_3dp_def get_distance_def py_truediv_def consts_defs)

text \<open>
  C1, as amended. The running package of the driver, \<^verbatim>\<open>('RUN', [15000, 1, 75])\<close>: the
  distance and the mean speed are 9.75, and the calories are the value of
  \<^verbatim>\<open>(18 * mean_speed - 20) * weight / 1000 * (duration * 60)\<close>, which is 699.75.
\<close>

theorem running_scenario:
  "approx_3dp (get_distance (Running (PInt 15000) (PInt 1) (PInt 75))) 9.750
   \<and> approx_3dp (get_mean_speed (Running (PInt 15000) (PInt 1) (PInt 75))) 9.750
   \<and> get_mean_speed (Running (PInt 15000) (PInt 1) (PInt 75)) = Inr 9.75
   \<and> get_spent_calories (Running (PInt 15000) (PInt 1) (PInt 75))
       = Inr ((18 * 9.75 - 20) * 75 / 1000 * (1 * 60))
   \<and> approx_3dp (get_spent_calories (Running (PInt 15000) (PInt 1) (PInt 75))) 699.750"
  by (simp add: approx_3dp_def get_distance_def py_truediv_def consts_defs)

text \<open>
  C1, as stated, gives 129.150 for the calories of that package. The formula does not
  yield it.
\<close>

theorem running_calories_not_129:
  "\<not> approx_3dp (get_spent_calories (Running (PInt 15000) (PInt 1) (PInt 75))) 129.150"
  by (simp add: approx_3dp_def get_distance_def py_truediv_def consts_defs)

section \<open>The formulas in general\<close>

text \<open>
  C2. For a walking reading with a positive height, the calories are
  \<^verbatim>\<open>(0.035 * weight + (mean_speed ** 2 // height) * 0.029 * weight) * (duration * 60)\<close>,
  the quotient being rounded down to an integer. On the walking package of the driver,
  \<^verbatim>\<open>('WLK', [9000, 1, 75, 180])\<close>, the quotient 34.2225 / 180 is rounded down to 0 and the
  result, 157.5, differs from the value of the formula with true division.
\<close>

theorem walking_calories_floor_division:
  "(to_float w = Inr wv \<and> to_float h = Inr hv \<and> 0 < hv \<and> to_float d = Inr dv
      \<and> get_mean_speed (SportsWalking a d w h) = Inr v
    \<longrightarrow> get_spent_calories (SportsWalking a d w h)
          = Inr ((0.035 * wv + of_int \<lfloor>v ^ 2 / hv\<rfloor> * 0.029 * wv) * (dv * 60)))
   \<and> get_mean_speed (SportsWalking (PInt 9000) (PInt 1) (PInt 75) (PInt 180)) = Inr 5.85
   \<and> get_spent_calories (SportsWalking (PInt 9000) (PInt 1) (PInt 75) (PInt 180)) = Inr 157.5
   \<and> get_spent_calories (SportsWalking (PInt 9000) (PInt 1) (PInt 75) (PInt 180))
       \<noteq> Inr (walking_calories_true_division 75 5.85 180 1)"
proof -
  have sp: "get_mean_speed (SportsWalking (PInt 9000) (PInt 1) (PInt 75) (PInt 180)) = Inr 5.85"
    by (simp add: get_distance_def py_truediv_def consts_defs)
  have cal: "get_spent_calories (SportsWalking (PInt 9000) (PInt 1) (PInt 75) (PInt 180)) = Inr 157.5"
    by (simp add: sp py_floordiv_def floor_eq_iff power2_eq_square consts_defs
          del: get_mean_speed.simps)
  have ne: "walking_calories_true_division 75 5.85 180 1 \<noteq> 157.5"
    by (simp add: walking_calories_true_division_def power2_eq_square)
  show ?thesis
    using sp cal ne by (simp add: py_floordiv_def consts_defs del: get_mean_speed.simps)
qed

text \<open>
  The hypotheses of C2 hold on the walking package of the driver.
\<close>

theorem walking_calories_floor_division_witness:
  "to_float (PInt 75) = Inr 75 \<and> to_float (PInt 180) = Inr 180 \<and> (0::real) < 180
   \<and> to_float (PInt 1) = Inr 1
   \<and> get_mean_speed (SportsWalking (PInt 9000) (PInt 1) (PInt 75) (PInt 180)) = Inr 5.85
   \<and> get_spent_calories (SportsWalking (PInt 9000) (PInt 1) (PInt 75) (PInt 180))
       = Inr ((0.035 * 75 + of_int \<lfloor>5.85 ^ 2 / (180::real)\<rfloor> * 0.029 * 75) * (1 * 60))"
  using walking_calories_floor_division [of "PInt 75" 75 "PInt 180" 180 "PInt 1" 1 "PInt 9000" "5.85"]
  by (simp add: get_distance_def py_truediv_def consts_defs)

text \<open>
  C3. For a cycling reading the calories are \<^verbatim>\<open>(rate / 1000) * (duration * 60)\<close>, where
  the rate is \<^verbatim>\<open>6 * mean_speed * weight\<close> when \<^verbatim>\<open>area_type\<close> is the string \<^verbatim>\<open>trail\<close> and
  \<^verbatim>\<open>2.5 * mean_speed * weight\<close> for any other value, \<^verbatim>\<open>trial\<close> among them. Unless the
  rate is zero, the result is the one with the coefficient 6 exactly when the area is
  \<^verbatim>\<open>trail\<close>.
\<close>

theorem cycling_calories_coefficient:
  "(to_float w = Inr wv \<and> to_float d = Inr dv \<and> get_mean_speed (Cycling a d w ar) = Inr v
    \<longrightarrow> get_spent_calories (Cycling a d w ar)
          = Inr (((if ar = PStr ''trail'' then 6 * v * wv else 2.5 * v * wv) / 1000) * (dv * 60))
        \<and> get_spent_calories (Cycling a d w (PStr ''trial''))
          = Inr ((2.5 * v * wv / 1000) * (dv * 60))
        \<and> (v * wv * dv \<noteq> 0 \<longrightarrow>
             (get_spent_calories (Cycling a d w ar) = Inr ((6 * v * wv / 1000) * (dv * 60))
              \<longleftrightarrow> ar = PStr ''trail'')))"
proof (intro impI, elim conjE)
  assume w: "to_float w = Inr wv" and d: "to_float d = Inr dv"
    and v: "get_mean_speed (Cycling a d w ar) = Inr v"
  have v': "get_mean_speed (Cycling a d w (PStr ''trial'')) = Inr v"
    using v cycling_speed_any_area [of a d w "PStr ''trial''" ar] by simp
  have 1: "get_spent_calories (Cycling a d w ar)
          = Inr (((if ar = PStr ''trail'' then 6 * v * wv else 2.5 * v * wv) / 1000) * (dv * 60))"
    by (simp add: w d v consts_defs del: get_mean_speed.simps)
  have 2: "get_spent_calories (Cycling a d w (PStr ''trial''))
          = Inr ((2.5 * v * wv / 1000) * (dv * 60))"
    by (simp add: w d v' consts_defs del: get_mean_speed.simps)
  have 3: "v * wv * dv \<noteq> 0 \<longrightarrow>
             (get_spent_calories (Cycling a d w ar) = Inr ((6 * v * wv / 1000) * (dv * 60))
              \<longleftrightarrow> ar = PStr ''trail'')"
    unfolding 1 by simp
  show "get_spent_calories (Cycling a d w ar)
          = Inr (((if ar = PStr ''trail'' then 6 * v * wv else 2.5 * v * wv) / 1000) * (dv * 60))
        \<and> get_spent_calories (Cycling a d w (PStr ''trial''))
          = Inr ((2.5 * v * wv / 1000) * (dv * 60))
        \<and> (v * wv * dv \<noteq> 0 \<longrightarrow>
             (get_spent_calories (Cycling a d w ar) = Inr ((6 * v * wv / 1000) * (dv * 60))
              \<longleftrightarrow> ar = PStr ''trail''))"
    using 1 2 3 by blast
qed

text \<open>
  The hypotheses of C3 hold on the cycling package of the driver,
  \<^verbatim>\<open>('CYC', [10000, 1, 75, 'trial'])\<close>.
\<close>

theorem cycling_calories_coefficient_witness:
  "to_float (PInt 75) = Inr 75 \<and> to_float (PInt 1) = Inr 1
   \<and> get_mean_speed (Cycling (PInt 10000) (PInt 1) (PInt 75) (PStr ''trial'')) = Inr 14
   \<and> (14 * 75 * 1 \<noteq> (0::real))
   \<and> get_spent_calories (Cycling (PInt 10000) (PInt 1) (PInt 75) (PStr ''trial''))
       = Inr ((2.5 * 14 * 75 / 1000) * (1 * 60))
   \<and> get_spent_calories (Cycling (PInt 10000) (PInt 1) (PInt 75) (PStr ''trial''))
       \<noteq> Inr ((6 * 14 * 75 / 1000) * (1 * 60))"
  using cycling_calories_coefficient [of "PInt 75" 75 "PInt 1" 1 "PInt 10000" "PStr ''trial''" 14]
  by (simp add: get_distance_def py_truediv_def consts_defs)

text \<open>
  C4. For a running, walking or cycling reading with a positive duration the mean speed is
  the distance divided by the duration, exactly. For a swimming reading it is
  \<^verbatim>\<open>(length_pool * count_pool) / 1000 / duration\<close>.
\<close>

theorem mean_speed_is_distance_over_duration:
  "(class_name t \<in> {''Running'', ''SportsWalking'', ''Cycling''}
      \<and> to_float (duration t) = Inr dv \<and> 0 < dv \<and> get_distance t = Inr dst
    \<longrightarrow> get_mean_speed t = Inr (dst / dv))
   \<and> (to_float l = Inr lv \<and> to_float c = Inr cv \<and> to_float d = Inr dv' \<and> 0 < dv'
    \<longrightarrow> get_mean_speed (Swimming a d w l c) = Inr ((lv * cv) / 1000 / dv'))"
  by (cases t) (simp_all add: py_truediv_def consts_defs)

text \<open>
  The hypotheses of C4 hold on the running and the swimming package of the driver.
\<close>

theorem mean_speed_is_distance_over_duration_witness:
  "class_name (Running (PInt 15000) (PInt 1) (PInt 75)) \<in> {''Running'', ''SportsWalking'', ''Cycling''}
   \<and> to_float (duration (Running (PInt 15000) (PInt 1) (PInt 75))) = Inr 1 \<and> (0::real) < 1
   \<and> get_distance (Running (PInt 15000) (PInt 1) (PInt 75)) = Inr 9.75
   \<and> get_mean_speed (Running (PInt 15000) (PInt 1) (PInt 75)) = Inr (9.75 / 1)
   \<and> to_float (PInt 25) = Inr 25 \<and> to_float (PInt 40) = Inr 40 \<and> to_float (PInt 1) = Inr 1
   \<and> get_mean_speed (Swimming (PInt 720) (PInt 1) (PInt 80) (PInt 25) (PInt 40))
       = Inr ((25 * 40) / 1000 / 1)"
  using mean_speed_is_distance_over_duration
    [of "Running (PInt 15000) (PInt 1) (PInt 75)" 1 "9.75" "PInt 25" 25 "PInt 40" 40 "PInt 1" 1
        "PInt 720" "PInt 80"]
  by (simp add: get_distance_def consts_defs)

text \<open>
  C10. Two swimming readings that differ only in \<^verbatim>\<open>action\<close> have the same mean speed and
  the same calories; the action counts in the distance alone. So the distance and the
  product of mean speed and duration can disagree: on the swimming package of the driver
  they are 0.9936 and 1.
\<close>

theorem swimming_ignores_action:
  "get_mean_speed (Swimming a d w l c) = get_mean_speed (Swimming a' d w l c)
   \<and> get_spent_calories (Swimming a d w l c) = get_spent_calories (Swimming a' d w l c)
   \<and> get_distance (Swimming (PInt 720) (PInt 1) (PInt 80) (PInt 25) (PInt 40))
       \<noteq> get_distance (Swimming (PInt 721) (PInt 1) (PInt 80) (PInt 25) (PInt 40))
   \<and> get_distance (Swimming (PInt 720) (PInt 1) (PInt 80) (PInt 25) (PInt 40)) = Inr 0.9936
   \<and> bind_res (get_mean_speed (Swimming (PInt 720) (PInt 1) (PInt 80) (PInt 25) (PInt 40)))
        (\<lambda>v. bind_res (to_float (duration (Swimming (PInt 720) (PInt 1) (PInt 80) (PInt 25) (PInt 40))))
          (\<lambda>dv. Inr (v * dv))) = Inr 1"
  by (simp add: get_distance_def py_truediv_def consts_defs)

section \<open>The factory\<close>

text \<open>
  C6. For a code outside \<^verbatim>\<open>SWM\<close>, \<^verbatim>\<open>RUN\<close>, \<^verbatim>\<open>WLK\<close>, \<^verbatim>\<open>CYC\<close>, \<^verbatim>\<open>read_package\<close>
  raises the \<^verbatim>\<open>ValueError\<close> of the source (the specification calls it
  \<^verbatim>\<open>UnknownWorkoutTypeError\<close>), whose message ends with the code. For a code of the set
  and a list of the right length it returns the reading of the class of that code, and it
  returns a reading only for a code of the set, of the class that goes with the code.
\<close>

theorem read_package_dispatch:
  "(workout_type \<notin> {''SWM'', ''RUN'', ''WLK'', ''CYC''}
      \<longrightarrow> read_package workout_type data = Inl (ValueError (incorrect_type_text @ workout_type)))
   \<and> read_package ''SWM'' [a, d, w, l, c] = Inr (Swimming a d w l c)
   \<and> read_package ''RUN'' [a, d, w] = Inr (Running a d w)
   \<and> read_package ''WLK'' [a, d, w, h] = Inr (SportsWalking a d w h)
   \<and> read_package ''CYC'' [a, d, w, ar] = Inr (Cycling a d w ar)
   \<and> (read_package workout_type data = Inr t
      \<longrightarrow> (workout_type, class_name t) \<in> {(''SWM'', ''Swimming''), (''RUN'', ''Running''),
             (''WLK'', ''SportsWalking''), (''CYC'', ''Cycling'')})"
  apply (intro conjI impI)
       apply (erule read_package_unknown)
      apply (simp add: read_package_known)
     apply (simp add: read_package_known)
    apply (simp add: read_package_known)
   apply (simp add: read_package_known)
  apply (erule read_package_class)
  done

text \<open>
  The hypotheses of C6 hold for the code \<^verbatim>\<open>XYZ\<close> and for the running package.
\<close>

theorem read_package_dispatch_witness:
  "''XYZ'' \<notin> {''SWM'', ''RUN'', ''WLK'', ''CYC''}
   \<and> read_package ''XYZ'' [PInt 1, PInt 2, PInt 3] = Inl (ValueError (incorrect_type_text @ ''XYZ''))
   \<and> read_package ''RUN'' [PInt 15000, PInt 1, PInt 75] = Inr (Running (PInt 15000) (PInt 1) (PInt 75))
   \<and> (''RUN'', class_name (Running (PInt 15000) (PInt 1) (PInt 75))) \<in>
        {(''SWM'', ''Swimming''), (''RUN'', ''Running''),
         (''WLK'', ''SportsWalking''), (''CYC'', ''Cycling'')}"
proof -
  have x: "''XYZ'' \<notin> {''SWM'', ''RUN'', ''WLK'', ''CYC''}"
    by simp
  note u = read_package_dispatch [where workout_type = "''XYZ''" and data = "[PInt 1, PInt 2, PInt 3]",
      THEN conjunct1, THEN mp, OF x]
  note r = read_package_dispatch [where a = "PInt 15000" and d = "PInt 1" and w = "PInt 75",
      THEN conjunct2, THEN conjunct2, THEN conjunct1]
  note c = read_package_dispatch [where workout_type = "''RUN''"
      and data = "[PInt 15000, PInt 1, PInt 75]" and t = "Running (PInt 15000) (PInt 1) (PInt 75)",
      THEN conjunct2, THEN conjunct2, THEN conjunct2, THEN conjunct2, THEN conjunct2, THEN mp, OF r]
  show ?thesis
    by (intro conjI) (rule x u r c)+
qed

text \<open>
  C8. For a known code and a list whose length is not the number of parameters of the
  class (Swimming 5, Running 3, SportsWalking 4, Cycling 4), \<^verbatim>\<open>read_package\<close> raises the
  \<^verbatim>\<open>TypeError\<close> of the failed call (the specification calls it \<^verbatim>\<open>InvalidReadingError\<close>).
\<close>

theorem read_package_wrong_arity:
  "(length data \<noteq> 5 \<longrightarrow> read_package ''SWM'' data = Inl TypeError)
   \<and> (length data \<noteq> 3 \<longrightarrow> read_package ''RUN'' data = Inl TypeError)
   \<and> (length data \<noteq> 4 \<longrightarrow> read_package ''WLK'' data = Inl TypeError)
   \<and> (length data \<noteq> 4 \<longrightarrow> read_package ''CYC'' data = Inl TypeError)"
  by (simp add: read_package_known new_Swimming_arity new_Running_arity
        new_SportsWalking_arity new_Cycling_arity)

text \<open>
  The hypotheses of C8 hold for a list of two values.
\<close>

theorem read_package_wrong_arity_witness:
  "length [PInt 15000, PInt 1] \<noteq> 5 \<and> length [PInt 15000, PInt 1] \<noteq> 3
   \<and> length [PInt 15000, PInt 1] \<noteq> 4
   \<and> read_package ''SWM'' [PInt 15000, PInt 1] = Inl TypeError
   \<and> read_package ''RUN'' [PInt 15000, PInt 1] = Inl TypeError
   \<and> read_package ''WLK'' [PInt 15000, PInt 1] = Inl TypeError
   \<and> read_package ''CYC'' [PInt 15000, PInt 1] = Inl TypeError"
  using read_package_wrong_arity [of "[PInt 15000, PInt 1]"]
  by simp

section \<open>Errors of the formulas\<close>

text \<open>
  C7. On a reading whose numbers are all positive, the three formulas and the report
  return a value. On a reading with numbers in its fields and a zero duration the mean
  speed raises \<^verbatim>\<open>ZeroDivisionError\<close>, and on a walking reading with a zero height (and a
  duration that is not zero) so do the calories; nothing catches it, so the calories and
  \<^verbatim>\<open>main\<close> end with the same exception (the specification calls it
  \<^verbatim>\<open>InvalidReadingError\<close>).
\<close>

theorem division_by_zero_propagates:
  "(positive_reading t \<longrightarrow>
      (\<exists>x. get_distance t = Inr x) \<and> (\<exists>x. get_mean_speed t = Inr x)
      \<and> (\<exists>x. get_spent_calories t = Inr x) \<and> (\<exists>s. main t = Inr s))
   \<and> (numeric_reading t \<and> is_zero (duration t) \<longrightarrow>
      get_mean_speed t = Inl ZeroDivisionError
      \<and> get_spent_calories t = Inl ZeroDivisionError
      \<and> main t = Inl ZeroDivisionError)
   \<and> (is_number a \<and> is_number d \<and> \<not> is_zero d \<and> is_number w \<and> is_zero h \<longrightarrow>
      get_spent_calories (SportsWalking a d w h) = Inl ZeroDivisionError
      \<and> main (SportsWalking a d w h) = Inl ZeroDivisionError)"
proof (intro conjI impI)
  assume p: "positive_reading t"
  from positive_distance [OF p] show "\<exists>x. get_distance t = Inr x" by blast
  from positive_speed [OF p] show "\<exists>x. get_mean_speed t = Inr x" by blast
  from positive_calories [OF p] show "\<exists>x. get_spent_calories t = Inr x" .
  from positive_main [OF p] show "\<exists>s. main t = Inr s" .
next
  assume z: "numeric_reading t \<and> is_zero (duration t)"
  then have s: "get_mean_speed t = Inl ZeroDivisionError"
    by (simp add: zero_duration_speed)
  from s show "get_mean_speed t = Inl ZeroDivisionError" .
  from z s show "get_spent_calories t = Inl ZeroDivisionError"
    by (simp add: speed_error_calories)
  from z s show "main t = Inl ZeroDivisionError"
    by (simp add: speed_error_main)
next
  assume h: "is_number a \<and> is_number d \<and> \<not> is_zero d \<and> is_number w \<and> is_zero h"
  then show "get_spent_calories (SportsWalking a d w h) = Inl ZeroDivisionError"
    by (intro zero_height_calories) simp_all
  from h show "main (SportsWalking a d w h) = Inl ZeroDivisionError"
    by (intro zero_height_main) simp_all
qed

text \<open>
  The hypotheses of C7 hold on the running package, on the running package with the
  duration 0, and on the walking package with the height 0.
\<close>

theorem division_by_zero_propagates_witness:
  "positive_reading (Running (PInt 15000) (PInt 1) (PInt 75))
   \<and> (\<exists>x. get_distance (Running (PInt 15000) (PInt 1) (PInt 75)) = Inr x)
   \<and> (\<exists>x. get_mean_speed (Running (PInt 15000) (PInt 1) (PInt 75)) = Inr x)
   \<and> (\<exists>x. get_spent_calories (Running (PInt 15000) (PInt 1) (PInt 75)) = Inr x)
   \<and> (\<exists>s. main (Running (PInt 15000) (PInt 1) (PInt 75)) = Inr s)
   \<and> numeric_reading (Running (PInt 15000) (PInt 0) (PInt 75))
   \<and> is_zero (duration (Running (PInt 15000) (PInt 0) (PInt 75)))
   \<and> get_mean_speed (Running (PInt 15000) (PInt 0) (PInt 75)) = Inl ZeroDivisionError
   \<and> get_spent_calories (Running (PInt 15000) (PInt 0) (PInt 75)) = Inl ZeroDivisionError
   \<and> main (Running (PInt 15000) (PInt 0) (PInt 75)) = Inl ZeroDivisionError
   \<and> is_number (PInt 9000) \<and> is_number (PInt 1) \<and> \<not> is_zero (PInt 1) \<and> is_number (PInt 75)
   \<and> is_zero (PInt 0)
   \<and> get_spent_calories (SportsWalking (PInt 9000) (PInt 1) (PInt 75) (PInt 0))
       = Inl ZeroDivisionError
   \<and> main (SportsWalking (PInt 9000) (PInt 1) (PInt 75) (PInt 0)) = Inl ZeroDivisionError"
proof -
  have p: "positive_reading (Running (PInt 15000) (PInt 1) (PInt 75))"
    by (simp add: is_positive_def)
  have z: "numeric_reading (Running (PInt 15000) (PInt 0) (PInt 75))
      \<and> is_zero (duration (Running (PInt 15000) (PInt 0) (PInt 75)))"
    by (simp add: is_number_def is_zero_def)
  have h: "is_number (PInt 9000) \<and> is_number (PInt 1) \<and> \<not> is_zero (PInt 1) \<and> is_number (PInt 75)
      \<and> is_zero (PInt 0)"
    by (simp add: is_number_def is_zero_def)
  note 1 = division_by_zero_propagates [where t = "Running (PInt 15000) (PInt 1) (PInt 75)",
      THEN conjunct1, THEN mp, OF p]
  note 2 = division_by_zero_propagates [where t = "Running (PInt 15000) (PInt 0) (PInt 75)",
      THEN conjunct2, THEN conjunct1, THEN mp, OF z]
  note 3 = division_by_zero_propagates [where a = "PInt 9000" and d = "PInt 1" and w = "PInt 75"
      and h = "PInt 0", THEN conjunct2, THEN conjunct2, THEN mp, OF h]
  from p 1 z 2 h 3 show ?thesis
    by (simp only: simp_thms)
qed

section \<open>The report\<close>

text \<open>
  C9, as amended. When the formulas return values, \<^verbatim>\<open>main\<close> prints the template of the
  source, which is in Russian, filled with the name of the class and four numbers. Each
  number is written by \<^verbatim>\<open>.3f\<close>: a sign, at least one digit, a point and exactly three
  digits, and the number written differs from the value by at most half a thousandth.
\<close>

theorem report_template:
  "(get_distance t = Inr dst \<and> get_mean_speed t = Inr spd \<and> get_spent_calories t = Inr cal
      \<and> to_float (duration t) = Inr dv
    \<longrightarrow> main t = Inr (message_training_type @ class_name t
            @ message_duration @ format_3f dv
            @ message_distance @ format_3f dst
            @ message_speed @ format_3f spd
            @ message_calories @ format_3f cal @ ''.''))
   \<and> (\<exists>ip fp. format_3f x = (if x < 0 then ''-'' else []) @ ip @ ''.'' @ fp
        \<and> ip \<noteq> [] \<and> length fp = 3 \<and> list_all is_digit (ip @ fp)
        \<and> \<bar>real (decimal_val (ip @ fp)) / 1000 - \<bar>x\<bar>\<bar> \<le> 1 / 2000)"
  using main_numeric [of t dst spd cal dv] format_3f_shape [of x] by blast

text \<open>
  The hypotheses of C9 hold on the running package, whose report has the fields
  \<^verbatim>\<open>Running\<close>, 1.000, 9.750, 9.750 and 699.750.
\<close>

theorem report_template_witness:
  "get_distance (Running (PInt 15000) (PInt 1) (PInt 75)) = Inr 9.75
   \<and> get_mean_speed (Running (PInt 15000) (PInt 1) (PInt 75)) = Inr 9.75
   \<and> get_spent_calories (Running (PInt 15000) (PInt 1) (PInt 75)) = Inr 699.75
   \<and> to_float (duration (Running (PInt 15000) (PInt 1) (PInt 75))) = Inr 1
   \<and> main (Running (PInt 15000) (PInt 1) (PInt 75))
       = Inr (message_training_type @ ''Running''
            @ message_duration @ ''1.000''
            @ message_distance @ ''9.750''
            @ message_speed @ ''9.750''
            @ message_calories @ ''699.750'' @ ''.'')"
proof -
  have v: "get_distance (Running (PInt 15000) (PInt 1) (PInt 75)) = Inr 9.75
      \<and> get_mean_speed (Running (PInt 15000) (PInt 1) (PInt 75)) = Inr 9.75
      \<and> get_spent_calories (Running (PInt 15000) (PInt 1) (PInt 75)) = Inr 699.75
      \<and> to_float (duration (Running (PInt 15000) (PInt 1) (PInt 75))) = Inr 1"
    by (simp only: running_package_values simp_thms)
  note m = report_template [where t = "Running (PInt 15000) (PInt 1) (PInt 75)" and dst = "9.75"
      and spd = "9.75" and cal = "699.75" and dv = 1, THEN conjunct1, THEN mp, OF v]
  from v m show ?thesis
    by (simp only: format_3f_examples class_name.simps simp_thms)
qed

text \<open>
  C9, as stated, has the English template
  \<^verbatim>\<open>Activity type: {name}; Duration: {duration:.3f} h; ...\<close>. The report of the running
  package is not that template filled with its fields.
\<close>

theorem report_not_english_template:
  "main (Running (PInt 15000) (PInt 1) (PInt 75))
     \<noteq> Inr (''Activity type: Running; Duration: 1.000 h; Distance: 9.750 km; ''
             @ ''Mean speed: 9.750 km/h; Calories: 699.750.'')"
proof -
  have "main (Running (PInt 15000) (PInt 1) (PInt 75))
       = Inr (message_training_type @ class_name (Running (PInt 15000) (PInt 1) (PInt 75))
            @ message_duration @ format_3f 1
            @ message_distance @ format_3f 9.75
            @ message_speed @ format_3f 9.75
            @ message_calories @ format_3f 699.75 @ ''.'')"
    by (rule main_numeric) (rule running_package_values)+
  then show ?thesis
    by (simp add: message_training_type_def)
qed

end
